theory Spec2Isabelle
  imports Main
begin

section \<open>bro-otx: OTX pulses to a Bro intel file\<close>

text \<open>
  The script \<^verbatim>\<open>bro-otx.py\<close> (Python 2) pulls the subscribed pulses from the OTX API page
  by page, maps every indicator's type to a Bro Intel type, and writes one
  tab-separated line per supported indicator after a fixed header line.

  The embedding makes the effects of the script explicit:
  \<^item> the remote service, seen through \<^verbatim>\<open>requests.get\<close>, is a function from the
    request sent to the response received, or to \<open>None\<close> when \<^verbatim>\<open>requests.get\<close> raises
    instead of returning a response (a URL without a scheme, no connection); the body
    of a response is a decoded page, or \<open>None\<close> when \<^verbatim>\<open>r.json()\<close> raises because the
    body is not JSON;
  \<^item> a dictionary decoded from JSON is a record whose fields are optional: \<open>None\<close> is
    an absent key, and reading it raises \<^verbatim>\<open>KeyError\<close>;
  \<^item> an exception (\<^verbatim>\<open>KeyError\<close>, \<^verbatim>\<open>TypeError\<close>, \<^verbatim>\<open>SystemExit\<close> from
    \<^verbatim>\<open>sys.exit\<close>, the exceptions of \<^verbatim>\<open>requests\<close>, \<^verbatim>\<open>ValueError\<close>, the two Unicode
    errors) is a value of \<open>error\<close>; the state reached when it is raised is kept;
  \<^item> the output file is the list of the strings passed to \<^verbatim>\<open>f.write\<close>, in order, and
    standard output is the list of the lines printed;
  \<^item> the generator \<open>iter_pulses\<close> takes the body of the \<^verbatim>\<open>for\<close> loop that consumes
    it: every \<^verbatim>\<open>yield\<close> runs the body on the yielded pulse before the generator
    goes on, and an exception in the body abandons the generator;
  \<^item> the pagination loop may run forever (the service may always return another
    link), so it takes fuel, the number of further pages it may request: a run is
    \<open>Running\<close> when the fuel is used up, \<open>Finished\<close> when the generator is exhausted
    and \<open>Raised e\<close> when an exception ends it, and in each case the file written so
    far is part of the result.
  Strings: the strings decoded from JSON are \<^verbatim>\<open>unicode\<close> objects, the constants of
  the script and the notice flag read from the configuration are byte strings. Both are
  lists of \<open>char\<close>; a \<open>char\<close> of code 128 or more stands for a character, or byte,
  outside ASCII. Python 2 converts between the two with the ASCII codec, when the
  fields are joined and when the line is written to the file opened in mode
  \<^verbatim>\<open>'wb'\<close>, and raises on such a character.

  The pages are taken to have the shape the script reads: a list of pulses under
  \<^verbatim>\<open>results\<close>, a string or \<^verbatim>\<open>null\<close> under \<^verbatim>\<open>next\<close>, strings and lists of strings in a
  pulse; any key may be absent.
\<close>

subsection \<open>Constants\<close>

abbreviation tab :: char where "tab \<equiv> CHR 0x09"
abbreviation newline :: char where "newline \<equiv> CHR 0x0A"

definition URL :: string where
  "URL = ''http://otx.alienvault.com/api/v1/pulses/subscribed''"

text \<open>Bro Intel file header format (\<^verbatim>\<open>_HEADER\<close>).\<close>

definition HEADER :: string where
  "HEADER = ''#fields'' @ [tab] @ ''indicator'' @ [tab] @ ''indicator_type'' @ [tab]
     @ ''meta.source'' @ [tab] @ ''meta.url'' @ [tab] @ ''meta.do_notice'' @ [newline]"

text \<open>Mapping of OTXv2 indicator types to Bro Intel types (\<^verbatim>\<open>_MAP\<close>).\<close>

definition MAP :: "(string \<times> string) list" where
  "MAP = [(''IPv4'', ''Intel::ADDR''),
          (''IPv6'', ''Intel::ADDR''),
          (''domain'', ''Intel::DOMAIN''),
          (''hostname'', ''Intel::DOMAIN''),
          (''email'', ''Intel::EMAIL''),
          (''URL'', ''Intel::URL''),
          (''URI'', ''Intel::URL''),
          (''FileHash-MD5'', ''Intel::FILE_HASH''),
          (''FileHash-SHA1'', ''Intel::FILE_HASH''),
          (''FileHash-SHA256'', ''Intel::FILE_HASH''),
          (''CVE'', ''Unsupported''),
          (''Mutex'', ''Unsupported''),
          (''CIDR'', ''Unsupported'')]"

subsection \<open>Data\<close>

datatype error =
    KeyError string | TypeError | SystemExit int
  | RequestException | ValueError | UnicodeDecodeError | UnicodeEncodeError

text \<open>How far a run has come: the script ended, an uncaught exception ended it, or it
  is still requesting pages.\<close>

datatype outcome = Finished | Raised error | Running

text \<open>The exit status of the interpreter: 0 when the script ends, the argument of
  \<^verbatim>\<open>sys.exit\<close>, and 1 after an uncaught exception. A run that has not ended has
  none.\<close>

fun exit_code :: "outcome \<Rightarrow> int option" where
  "exit_code Finished = Some 0"
| "exit_code (Raised (SystemExit n)) = Some n"
| "exit_code (Raised _) = Some 1"
| "exit_code Running = None"

record indicator =
  indicator :: "string option"
  type :: "string option"

record pulse =
  author_name :: "string option"
  references :: "string list option"
  indicators :: "indicator list option"

text \<open>The \<^verbatim>\<open>next\<close> field of a page is JSON \<^verbatim>\<open>null\<close> or a string.\<close>

datatype link = Null | Str string

record page =
  results :: "pulse list option"
  "next" :: "link option"

record request =
  url :: string
  api_key :: string
  params :: "(int \<times> string) option"

text \<open>A response: its status and what \<^verbatim>\<open>r.json()\<close> returns, \<open>None\<close> when the body is
  not JSON and \<^verbatim>\<open>r.json()\<close> raises \<^verbatim>\<open>ValueError\<close>.\<close>

record response =
  status_code :: int
  json :: "page option"

text \<open>What \<^verbatim>\<open>requests.get\<close> does with a request: it returns a response, or raises an
  exception of \<^verbatim>\<open>requests\<close> (\<open>None\<close>).\<close>

type_synonym server = "request \<Rightarrow> response option"

text \<open>A string of ASCII characters only.\<close>

definition ascii :: "string \<Rightarrow> bool" where
  "ascii s = list_all (\<lambda>c. (of_char c :: nat) < 128) s"

subsection \<open>The fetcher\<close>

text \<open>
  \<^verbatim>\<open>_get(key, mtime, limit=20, next_request='')\<close>: one request. The first request goes
  to the fixed URL with the query parameters, a later one to the link of the previous
  page. An exception of \<^verbatim>\<open>requests.get\<close> is not caught. Status 200 returns
  \<^verbatim>\<open>r.json()\<close>, the decoded page, or raises its \<^verbatim>\<open>ValueError\<close>; 403 and 400 print a
  message and exit with status 1; any other status falls off the end of the function,
  which returns \<^verbatim>\<open>None\<close> (here: \<open>Inr None\<close>). The second component is standard
  output.
\<close>

definition otx_get ::
  "server \<Rightarrow> string \<Rightarrow> string \<Rightarrow> int \<Rightarrow> string \<Rightarrow> string list
     \<Rightarrow> (error + page option) \<times> string list" where
  "otx_get http key mtime limit next_request out =
     (case (if next_request = ''''
            then http \<lparr>url = URL, api_key = key, params = Some (limit, mtime)\<rparr>
            else http \<lparr>url = next_request, api_key = key, params = None\<rparr>) of
        None \<Rightarrow> (Inl RequestException, out)
      | Some r \<Rightarrow>
          if status_code r = 200 then
            (case json r of
               None \<Rightarrow> (Inl ValueError, out)
             | Some pg \<Rightarrow> (Inr (Some pg), out))
          else if status_code r = 403
            then (Inl (SystemExit 1), out @ [''An invalid API key was specified.''])
          else if status_code r = 400
            then (Inl (SystemExit 1), out @ [''An invalid request was made.''])
          else (Inr None, out))"

text \<open>\<^verbatim>\<open>x['results']\<close> and \<^verbatim>\<open>x['next']\<close> on the value \<^verbatim>\<open>_get\<close> returned: subscripting
  \<^verbatim>\<open>None\<close> raises \<^verbatim>\<open>TypeError\<close>, an absent key raises \<^verbatim>\<open>KeyError\<close>.\<close>

definition getitem_results :: "page option \<Rightarrow> error + pulse list" where
  "getitem_results x =
     (case x of None \<Rightarrow> Inl TypeError
      | Some p \<Rightarrow> (case results p of None \<Rightarrow> Inl (KeyError ''results'') | Some rs \<Rightarrow> Inr rs))"

definition getitem_next :: "page option \<Rightarrow> error + link" where
  "getitem_next x =
     (case x of None \<Rightarrow> Inl TypeError
      | Some p \<Rightarrow> (case next p of None \<Rightarrow> Inl (KeyError ''next'') | Some n \<Rightarrow> Inr n))"

text \<open>The truth value of \<^verbatim>\<open>next_request\<close> in \<^verbatim>\<open>while next_request:\<close>: \<^verbatim>\<open>None\<close> and
  the empty string are false.\<close>

fun truthy :: "link \<Rightarrow> bool" where
  "truthy Null = False"
| "truthy (Str s) = (s \<noteq> '''')"

fun link_url :: "link \<Rightarrow> string" where
  "link_url Null = ''''"
| "link_url (Str s) = s"

text \<open>A \<^verbatim>\<open>for\<close> loop whose body may raise: the loop stops at the first exception, with
  the state the body left.\<close>

fun for_each :: "('a \<Rightarrow> 's \<Rightarrow> error option \<times> 's) \<Rightarrow> 'a list \<Rightarrow> 's \<Rightarrow> error option \<times> 's" where
  "for_each body [] s = (None, s)"
| "for_each body (x # xs) s =
     (case body x s of
        (Some e, s') \<Rightarrow> (Some e, s')
      | (None, s') \<Rightarrow> for_each body xs s')"

text \<open>
  \<^verbatim>\<open>for result in json_data['results']: yield result\<close> followed by
  \<^verbatim>\<open>next_request = json_data['next']\<close>: the consumer \<open>consume\<close> runs on every
  yielded pulse. The result is the exception raised, if any, or the new
  \<^verbatim>\<open>next_request\<close>, and the consumer's state.
\<close>

definition yield_page ::
  "page option \<Rightarrow> (pulse \<Rightarrow> 's \<Rightarrow> error option \<times> 's) \<Rightarrow> 's \<Rightarrow> (error + link) \<times> 's" where
  "yield_page json_data consume s =
     (case getitem_results json_data of
        Inl e \<Rightarrow> (Inl e, s)
      | Inr rs \<Rightarrow>
          (case for_each consume rs s of
             (Some e, s') \<Rightarrow> (Inl e, s')
           | (None, s') \<Rightarrow> (getitem_next json_data, s')))"

text \<open>
  The \<^verbatim>\<open>while next_request:\<close> loop of \<open>iter_pulses\<close>, with \<open>fuel\<close> bounding the
  number of iterations. The request of a later page leaves \<^verbatim>\<open>limit\<close> at its default,
  20.
\<close>

fun pages_loop ::
  "nat \<Rightarrow> server \<Rightarrow> string \<Rightarrow> string \<Rightarrow> (pulse \<Rightarrow> 's \<Rightarrow> error option \<times> 's) \<Rightarrow> link \<Rightarrow> 's
     \<Rightarrow> string list \<Rightarrow> outcome \<times> 's \<times> string list" where
  "pages_loop 0 http key mtime consume next_request s out =
     (if truthy next_request then (Running, s, out) else (Finished, s, out))"
| "pages_loop (Suc fuel) http key mtime consume next_request s out =
     (if truthy next_request then
        (case otx_get http key mtime 20 (link_url next_request) out of
           (Inl e, out') \<Rightarrow> (Raised e, s, out')
         | (Inr json_data, out') \<Rightarrow>
             (case yield_page json_data consume s of
                (Inl e, s') \<Rightarrow> (Raised e, s', out')
              | (Inr next_request', s') \<Rightarrow>
                  pages_loop fuel http key mtime consume next_request' s' out'))
      else (Finished, s, out))"

text \<open>\<open>iter_pulses\<close>: the initial request, its pulses, then the loop.\<close>

definition iter_pulses ::
  "nat \<Rightarrow> server \<Rightarrow> string \<Rightarrow> string \<Rightarrow> int \<Rightarrow> (pulse \<Rightarrow> 's \<Rightarrow> error option \<times> 's) \<Rightarrow> 's
     \<Rightarrow> string list \<Rightarrow> outcome \<times> 's \<times> string list" where
  "iter_pulses fuel http key mtime limit consume s out =
     (case otx_get http key mtime limit '''' out of
        (Inl e, out') \<Rightarrow> (Raised e, s, out')
      | (Inr initial_results, out') \<Rightarrow>
          (case yield_page initial_results consume s of
             (Inl e, s') \<Rightarrow> (Raised e, s', out')
           | (Inr next_request, s') \<Rightarrow>
               pages_loop fuel http key mtime consume next_request s' out'))"

text \<open>The sequence of pulses a consumer sees: the consumer that appends each yielded
  pulse to a list.\<close>

definition collect :: "pulse \<Rightarrow> pulse list \<Rightarrow> error option \<times> pulse list" where
  "collect p acc = (None, acc @ [p])"

subsection \<open>The type mapper\<close>

text \<open>\<^verbatim>\<open>_MAP[indicator_type]\<close>: a tag that is not a key of the table raises
  \<^verbatim>\<open>KeyError\<close>.\<close>

definition map_indicator_type :: "string \<Rightarrow> error + string" where
  "map_indicator_type indicator_type =
     (case map_of MAP indicator_type of
        None \<Rightarrow> Inl (KeyError indicator_type)
      | Some bro_type \<Rightarrow> Inr bro_type)"

subsection \<open>The record builder and writer\<close>

text \<open>\<^verbatim>\<open>sep.join(fields)\<close>.\<close>

fun join :: "string \<Rightarrow> string list \<Rightarrow> string" where
  "join sep [] = ''''"
| "join sep [x] = x"
| "join sep (x # y # ys) = x @ sep @ join sep (y # ys)"

text \<open>\<^verbatim>\<open>d[k]\<close> on a dictionary whose key \<open>k\<close> holds \<open>v\<close>.\<close>

definition getitem :: "string \<Rightarrow> 'a option \<Rightarrow> error + 'a" where
  "getitem k v = (case v of None \<Rightarrow> Inl (KeyError k) | Some x \<Rightarrow> Inr x)"

text \<open>\<^verbatim>\<open>try: url = pulse[u'references'][0]\<close> \<^verbatim>\<open>except IndexError: url = ...\<close>: only
  the index error of an empty list is caught.\<close>

definition reference_url :: "pulse \<Rightarrow> error + string" where
  "reference_url p =
     (case references p of
        None \<Rightarrow> Inl (KeyError ''references'')
      | Some [] \<Rightarrow> Inr ''https://otx.alienvault.com''
      | Some (u # us) \<Rightarrow> Inr u)"

text \<open>
  The body of the loop over the indicators of a pulse, up to the list \<^verbatim>\<open>fields\<close>:
  \<open>Inr None\<close> is the \<^verbatim>\<open>continue\<close> of an unsupported type, \<open>Inr (Some fields)\<close> the
  record to write. The lookups happen in the order of the source: the type, the table,
  the reference, the indicator value, the author.
\<close>

definition record_fields :: "string \<Rightarrow> pulse \<Rightarrow> indicator \<Rightarrow> error + string list option" where
  "record_fields do_notice p i =
     (case getitem ''type'' (type i) of
        Inl e \<Rightarrow> Inl e
      | Inr t \<Rightarrow>
     (case map_indicator_type t of
        Inl e \<Rightarrow> Inl e
      | Inr bro_type \<Rightarrow>
          if bro_type = ''Unsupported'' then Inr None
          else
     (case reference_url p of
        Inl e \<Rightarrow> Inl e
      | Inr u \<Rightarrow>
     (case getitem ''indicator'' (indicator i) of
        Inl e \<Rightarrow> Inl e
      | Inr v \<Rightarrow>
     (case getitem ''author_name'' (author_name p) of
        Inl e \<Rightarrow> Inl e
      | Inr a \<Rightarrow> Inr (Some [v, bro_type, a, u, do_notice @ [newline]]))))))"

text \<open>
  One iteration of the inner loop, ending in \<^verbatim>\<open>f.write('\t'.join(fields))\<close>. The
  indicator value is a \<^verbatim>\<open>unicode\<close> object, so the join decodes the byte strings among
  the fields with the ASCII codec: of these only the notice flag is not a constant of
  the script, and a byte outside ASCII in it raises \<^verbatim>\<open>UnicodeDecodeError\<close>. The line
  is then a \<^verbatim>\<open>unicode\<close> object, which \<^verbatim>\<open>f.write\<close> encodes with the ASCII codec: a
  character outside ASCII in a field raises \<^verbatim>\<open>UnicodeEncodeError\<close>. Otherwise one
  string is appended to the file.
\<close>

definition write_indicator ::
  "string \<Rightarrow> pulse \<Rightarrow> indicator \<Rightarrow> string list \<Rightarrow> error option \<times> string list" where
  "write_indicator do_notice p i f =
     (case record_fields do_notice p i of
        Inl e \<Rightarrow> (Some e, f)
      | Inr None \<Rightarrow> (None, f)
      | Inr (Some fields') \<Rightarrow>
          if \<not> ascii do_notice then (Some UnicodeDecodeError, f)
          else if \<not> ascii (join [tab] fields') then (Some UnicodeEncodeError, f)
          else (None, f @ [join [tab] fields']))"

text \<open>The body of the outer loop: \<^verbatim>\<open>for indicator in pulse[u'indicators']\<close>.\<close>

definition write_pulse :: "string \<Rightarrow> pulse \<Rightarrow> string list \<Rightarrow> error option \<times> string list" where
  "write_pulse do_notice p f =
     (case getitem ''indicators'' (indicators p) of
        Inl e \<Rightarrow> (Some e, f)
      | Inr inds \<Rightarrow> for_each (write_indicator do_notice p) inds f)"

text \<open>
  \<open>main\<close>, after the configuration is read: \<open>key\<close>, \<open>do_notice\<close> and the cutoff
  \<open>mtime\<close> come from it. The header is written first; the result is the outcome of
  the run, the strings written to the file and the lines printed.
\<close>

definition main ::
  "nat \<Rightarrow> server \<Rightarrow> string \<Rightarrow> string \<Rightarrow> string \<Rightarrow> outcome \<times> string list \<times> string list" where
  "main fuel http key mtime do_notice =
     iter_pulses fuel http key mtime 20 (write_pulse do_notice) [HEADER] []"

text \<open>The bytes of the file: the written strings, one after the other.\<close>

definition contents :: "string list \<Rightarrow> string" where
  "contents f = concat f"

subsection \<open>The record format of the specification\<close>

text \<open>The data line the specification describes: the five fields, indicator value,
  mapped category, author name, reference URL and notice flag, joined with tabs and
  ended by one newline.\<close>

definition spec_line :: "string \<Rightarrow> string \<Rightarrow> string \<Rightarrow> string \<Rightarrow> string \<Rightarrow> string" where
  "spec_line v category author u notice =
     v @ [tab] @ category @ [tab] @ author @ [tab] @ u @ [tab] @ notice @ [newline]"

text \<open>The message the specification gives for each fatal status: 403 reports an invalid
  API key, 400 an invalid request.\<close>

definition fatal_message :: "int \<Rightarrow> string" where
  "fatal_message c =
     (if c = 403 then ''An invalid API key was specified.'' else ''An invalid request was made.'')"

subsection \<open>Pages the script can write\<close>

text \<open>
  Input that is written without an exception, for a given notice flag: an indicator has
  a value and a type tag of the table; a pulse has an author, a list of references and
  a list of such indicators; every string, the notice flag too, is ASCII.
\<close>

definition wf_indicator :: "indicator \<Rightarrow> bool" where
  "wf_indicator i =
     (case indicator i of None \<Rightarrow> False
      | Some v \<Rightarrow> ascii v \<and>
          (case type i of None \<Rightarrow> False | Some t \<Rightarrow> map_of MAP t \<noteq> None))"

definition wf_pulse :: "string \<Rightarrow> pulse \<Rightarrow> bool" where
  "wf_pulse do_notice p =
     (ascii do_notice \<and>
      (case author_name p of None \<Rightarrow> False
       | Some a \<Rightarrow> ascii a \<and>
          (case references p of None \<Rightarrow> False
           | Some refs \<Rightarrow> list_all ascii refs \<and>
              (case indicators p of None \<Rightarrow> False
               | Some inds \<Rightarrow> list_all wf_indicator inds))))"

text \<open>A response with status 200 whose page has both keys and holds such pulses only;
  \<open>page_link\<close> is the link of the page of a response.\<close>

definition wf_response :: "string \<Rightarrow> response option \<Rightarrow> bool" where
  "wf_response do_notice x =
     (case x of None \<Rightarrow> False
      | Some r \<Rightarrow> status_code r = 200 \<and>
          (case json r of None \<Rightarrow> False
           | Some pg \<Rightarrow> next pg \<noteq> None \<and>
              (case results pg of None \<Rightarrow> False
               | Some rs \<Rightarrow> list_all (wf_pulse do_notice) rs)))"

definition page_link :: "response option \<Rightarrow> link" where
  "page_link x =
     (case x of None \<Rightarrow> Null
      | Some r \<Rightarrow> (case json r of None \<Rightarrow> Null
          | Some pg \<Rightarrow> (case next pg of None \<Rightarrow> Null | Some nx \<Rightarrow> nx)))"

text \<open>
  The requests the script makes from the link \<open>nx\<close> on, at most \<open>n\<close> of them, are each
  answered with such a response, and the last page has an empty link. Only the
  requests the run makes are looked at: each link comes from the page before.
\<close>

fun wf_pages :: "nat \<Rightarrow> server \<Rightarrow> string \<Rightarrow> string \<Rightarrow> link \<Rightarrow> bool" where
  "wf_pages 0 http key do_notice nx = (if truthy nx then False else True)"
| "wf_pages (Suc n) http key do_notice nx =
     (if truthy nx
      then wf_response do_notice (http \<lparr>url = link_url nx, api_key = key, params = None\<rparr>)
        \<and> wf_pages n http key do_notice
             (page_link (http \<lparr>url = link_url nx, api_key = key, params = None\<rparr>))
      else True)"

text \<open>The same from the first request on.\<close>

definition wf_run :: "nat \<Rightarrow> server \<Rightarrow> string \<Rightarrow> string \<Rightarrow> string \<Rightarrow> bool" where
  "wf_run n http key mtime do_notice =
     (wf_response do_notice (http \<lparr>url = URL, api_key = key, params = Some (20, mtime)\<rparr>)
      \<and> wf_pages n http key do_notice
           (page_link (http \<lparr>url = URL, api_key = key, params = Some (20, mtime)\<rparr>)))"

subsection \<open>Example inputs\<close>

text \<open>The pulse of the round-trip scenario, a pulse with an empty reference list, a pulse
  without the \<open>references\<close> key, a pulse with an indicator type outside the table, a
  pulse whose author has a character outside ASCII, and services that answer with one
  page, with two linked pages, with a first page and then a given status, and with a
  given status from the start.\<close>

definition pulse_X :: pulse where
  "pulse_X = \<lparr>author_name = Some ''X'', references = Some [''http://r''],
     indicators = Some [\<lparr>indicator = Some ''1.2.3.4'', type = Some ''IPv4''\<rparr>,
                        \<lparr>indicator = Some ''CVE-2020-1'', type = Some ''CVE''\<rparr>]\<rparr>"

definition pulse_Y :: pulse where
  "pulse_Y = \<lparr>author_name = Some ''Y'', references = Some [],
     indicators = Some [\<lparr>indicator = Some ''evil.example'', type = Some ''domain''\<rparr>]\<rparr>"

definition pulse_N :: pulse where
  "pulse_N = \<lparr>author_name = Some ''N'', references = None,
     indicators = Some [\<lparr>indicator = Some ''10.0.0.1'', type = Some ''IPv4''\<rparr>]\<rparr>"

definition pulse_Z :: pulse where
  "pulse_Z = \<lparr>author_name = Some ''Z'', references = Some [''http://z''],
     indicators = Some [\<lparr>indicator = Some ''rule Z {}'', type = Some ''YARA''\<rparr>]\<rparr>"


definition one_page :: "pulse list \<Rightarrow> server" where
  "one_page ps =
     (\<lambda>req. Some \<lparr>status_code = 200, json = Some \<lparr>results = Some ps, next = Some Null\<rparr>\<rparr>)"

definition two_pages :: "pulse list \<Rightarrow> pulse list \<Rightarrow> server" where
  "two_pages ps qs =
     (\<lambda>req. if url req = URL
        then Some \<lparr>status_code = 200,
                  json = Some \<lparr>results = Some ps, next = Some (Str ''http://otx/page2'')\<rparr>\<rparr>
        else Some \<lparr>status_code = 200, json = Some \<lparr>results = Some qs, next = Some Null\<rparr>\<rparr>)"

definition page_then_status :: "pulse list \<Rightarrow> int \<Rightarrow> server" where
  "page_then_status ps c =
     (\<lambda>req. if url req = URL
        then Some \<lparr>status_code = 200,
                  json = Some \<lparr>results = Some ps, next = Some (Str ''http://otx/page2'')\<rparr>\<rparr>
        else Some \<lparr>status_code = c, json = None\<rparr>)"

definition always_status :: "int \<Rightarrow> server" where
  "always_status c = (\<lambda>req. Some \<lparr>status_code = c, json = None\<rparr>)"

section \<open>Properties\<close>

subsection \<open>Loops and invariants\<close>

lemma for_each_append:
  "for_each body (xs @ ys) s =
     (case for_each body xs s of (Some e, s') \<Rightarrow> (Some e, s') | (None, s') \<Rightarrow> for_each body ys s')"
  by (induction xs arbitrary: s) (auto split: prod.splits option.splits)

lemma for_each_collect: "for_each collect rs acc = (None, acc @ rs)"
  by (induction rs arbitrary: acc) (simp_all add: collect_def)

text \<open>A property of the consumer's state that every run of the body keeps is kept by
  the loops around it, however far the run has come.\<close>

lemma for_each_inv:
  assumes step: "\<And>x s. I s \<Longrightarrow> I (snd (body x s))"
  shows "I s \<Longrightarrow> I (snd (for_each body xs s))"
proof (induction xs arbitrary: s)
  case Nil
  then show ?case by simp
next
  case (Cons x xs)
  from step [OF Cons.prems, of x] Cons.IH [of "snd (body x s)"]
  show ?case by (auto split: prod.splits option.splits)
qed

lemma yield_page_inv:
  assumes step: "\<And>x s. I s \<Longrightarrow> I (snd (consume x s))" and "I s"
  shows "I (snd (yield_page j consume s))"
  using for_each_inv [of I consume s, OF step \<open>I s\<close>] \<open>I s\<close>
  by (auto simp: yield_page_def split: sum.splits prod.splits option.splits)
     (metis snd_conv)+

lemma pages_loop_inv:
  assumes step: "\<And>x s. I s \<Longrightarrow> I (snd (consume x s))"
  shows "I s \<Longrightarrow> I (fst (snd (pages_loop fuel http key mtime consume nxt s out)))"
proof (induction fuel arbitrary: nxt s out)
  case 0
  then show ?case by simp
next
  case (Suc fuel)
  show ?case
    using yield_page_inv [of I consume s, OF step Suc.prems] Suc.prems Suc.IH
    by (auto split: sum.splits prod.splits) (metis snd_conv)+
qed

lemma iter_pulses_inv:
  assumes step: "\<And>x s. I s \<Longrightarrow> I (snd (consume x s))" and "I s"
  shows "I (fst (snd (iter_pulses fuel http key mtime limit consume s out)))"
  using yield_page_inv [of I consume s, OF step \<open>I s\<close>] \<open>I s\<close> pages_loop_inv [of I consume, OF step]
  by (auto simp: iter_pulses_def split: sum.splits prod.splits) (metis snd_conv)+

subsection \<open>The type mapper\<close>

text \<open>
  C2. For every indicator type tag of the fixed table other than CVE, Mutex and CIDR,
  \<open>map_indicator_type\<close> returns the documented category: IPv4 and IPv6 give
  \<open>Intel::ADDR\<close>, domain and hostname \<open>Intel::DOMAIN\<close>, email \<open>Intel::EMAIL\<close>, URL and
  URI \<open>Intel::URL\<close>, the three file hashes \<open>Intel::FILE_HASH\<close>. For CVE, Mutex and CIDR
  it returns the sentinel \<open>Unsupported\<close>, and the loop body then writes nothing for
  that indicator, whatever its value, its pulse and the notice flag.
\<close>

theorem map_indicator_type_table:
  "map_indicator_type ''IPv4'' = Inr ''Intel::ADDR''
   \<and> map_indicator_type ''IPv6'' = Inr ''Intel::ADDR''
   \<and> map_indicator_type ''domain'' = Inr ''Intel::DOMAIN''
   \<and> map_indicator_type ''hostname'' = Inr ''Intel::DOMAIN''
   \<and> map_indicator_type ''email'' = Inr ''Intel::EMAIL''
   \<and> map_indicator_type ''URL'' = Inr ''Intel::URL''
   \<and> map_indicator_type ''URI'' = Inr ''Intel::URL''
   \<and> map_indicator_type ''FileHash-MD5'' = Inr ''Intel::FILE_HASH''
   \<and> map_indicator_type ''FileHash-SHA1'' = Inr ''Intel::FILE_HASH''
   \<and> map_indicator_type ''FileHash-SHA256'' = Inr ''Intel::FILE_HASH''
   \<and> map_indicator_type ''CVE'' = Inr ''Unsupported''
   \<and> map_indicator_type ''Mutex'' = Inr ''Unsupported''
   \<and> map_indicator_type ''CIDR'' = Inr ''Unsupported''
   \<and> write_indicator do_notice p \<lparr>indicator = v, type = Some ''CVE''\<rparr> f = (None, f)
   \<and> write_indicator do_notice p \<lparr>indicator = v, type = Some ''Mutex''\<rparr> f = (None, f)
   \<and> write_indicator do_notice p \<lparr>indicator = v, type = Some ''CIDR''\<rparr> f = (None, f)"
  by (simp add: write_indicator_def record_fields_def getitem_def map_indicator_type_def MAP_def)

subsection \<open>Pagination\<close>

text \<open>
  C3. When the first request is answered with status 200 and a page P1 whose \<open>next\<close>
  is a non-empty link, and the request to that link is answered with status 200 and a
  page P2 whose \<open>next\<close> is null or the empty string, \<open>iter_pulses\<close> yields exactly the
  results of P1 followed by the results of P2, in the order of the service, each once,
  and is then exhausted: the collecting consumer ends with these pulses appended, and
  any consumer is run on exactly this sequence. One unit of fuel, the request of P2,
  is enough. The loop ends as soon as \<open>next\<close> is empty: with such a link it finishes
  at once, whatever the fuel, without a request and without touching the state.
\<close>

theorem iter_pulses_two_pages:
  assumes h1: "http \<lparr>url = URL, api_key = key, params = Some (limit, mtime)\<rparr> = Some R1"
    and s1: "status_code R1 = 200" and j1: "json R1 = Some P1"
    and r1: "results P1 = Some r1" and n1: "next P1 = Some (Str u)" and u: "u \<noteq> ''''"
    and h2: "http \<lparr>url = u, api_key = key, params = None\<rparr> = Some R2"
    and s2: "status_code R2 = 200" and j2: "json R2 = Some P2"
    and r2: "results P2 = Some r2" and n2: "next P2 = Some n2" and f2: "\<not> truthy n2"
  shows "iter_pulses (Suc fuel) http key mtime limit collect acc out = (Finished, acc @ r1 @ r2, out)
    \<and> iter_pulses (Suc fuel) http key mtime limit consume s out =
        (case for_each consume (r1 @ r2) s of
           (Some e, s') \<Rightarrow> (Raised e, s', out)
         | (None, s') \<Rightarrow> (Finished, s', out))
    \<and> pages_loop fuel' http' key' mtime' consume' n2 s' out' = (Finished, s', out')"
proof -
  have g1: "otx_get http key mtime limit '''' out = (Inr (Some P1), out)"
    using h1 s1 j1 by (simp add: otx_get_def)
  have g2: "otx_get http key mtime 20 u out = (Inr (Some P2), out)"
    using h2 s2 j2 u by (simp add: otx_get_def)
  have stop: "pages_loop fl http key mtime c n2 st out = (Finished, st, out)"
    for fl and c :: "pulse \<Rightarrow> 'c \<Rightarrow> error option \<times> 'c" and st
    using f2 by (cases fl) simp_all
  have gen: "iter_pulses (Suc fuel) http key mtime limit c st out =
        (case for_each c (r1 @ r2) st of
           (Some e, s') \<Rightarrow> (Raised e, s', out)
         | (None, s') \<Rightarrow> (Finished, s', out))"
    for c :: "pulse \<Rightarrow> 'c \<Rightarrow> error option \<times> 'c" and st
    using g1 g2 r1 n1 u r2 n2 stop [of fuel c]
    by (auto simp: iter_pulses_def yield_page_def getitem_results_def getitem_next_def
          for_each_append split: prod.splits option.splits sum.splits)
  have "pages_loop fuel' http' key' mtime' consume' n2 s' out' = (Finished, s', out')"
    using f2 by (cases fuel') simp_all
  moreover have "iter_pulses (Suc fuel) http key mtime limit collect acc out
      = (Finished, acc @ r1 @ r2, out)"
    by (simp add: gen for_each_collect)
  ultimately show ?thesis using gen by simp
qed

theorem iter_pulses_two_pages_witness:
  "iter_pulses (Suc 0) (two_pages [pulse_X] [pulse_Y, pulse_X]) ''k'' ''2020-01-01'' 20 collect [] []
     = (Finished, [pulse_X, pulse_Y, pulse_X], [])
   \<and> pages_loop 5 (two_pages [pulse_X] [pulse_Y, pulse_X]) ''k'' ''2020-01-01'' collect Null
       [pulse_X] [] = (Finished, [pulse_X], [])"
  using iter_pulses_two_pages [where http = "two_pages [pulse_X] [pulse_Y, pulse_X]" and key = "''k''"
      and limit = 20 and mtime = "''2020-01-01''"
      and ?R1.0 = "\<lparr>status_code = 200,
          json = Some \<lparr>results = Some [pulse_X], next = Some (Str ''http://otx/page2'')\<rparr>\<rparr>"
      and ?P1.0 = "\<lparr>results = Some [pulse_X], next = Some (Str ''http://otx/page2'')\<rparr>"
      and ?r1.0 = "[pulse_X]" and u = "''http://otx/page2''"
      and ?R2.0 = "\<lparr>status_code = 200,
          json = Some \<lparr>results = Some [pulse_Y, pulse_X], next = Some Null\<rparr>\<rparr>"
      and ?P2.0 = "\<lparr>results = Some [pulse_Y, pulse_X], next = Some Null\<rparr>"
      and ?r2.0 = "[pulse_Y, pulse_X]" and ?n2.0 = Null and fuel = 0 and acc = "[]" and out = "[]"
      and consume = collect and s = "[]" and fuel' = 5
      and http' = "two_pages [pulse_X] [pulse_Y, pulse_X]" and key' = "''k''"
      and mtime' = "''2020-01-01''" and consume' = collect and s' = "[pulse_X]" and out' = "[]"]
  by (simp add: two_pages_def URL_def del: pages_loop.simps)

subsection \<open>The record builder\<close>

text \<open>Every category of the table other than the sentinel contains a colon; the header
  does not.\<close>

lemma category_colon:
  "map_of MAP t = Some c \<Longrightarrow> c \<noteq> ''Unsupported'' \<Longrightarrow> CHR '':'' \<in> set c"
  by (auto simp: MAP_def split: if_splits)

lemma header_no_colon: "CHR '':'' \<notin> set HEADER"
  by (simp add: HEADER_def)

text \<open>When the builder returns a record, and what the record is.\<close>

lemma record_fields_Some:
  "record_fields n p i = Inr (Some fs) \<longleftrightarrow>
     (\<exists>v t c a u. indicator i = Some v \<and> type i = Some t \<and> map_of MAP t = Some c
        \<and> c \<noteq> ''Unsupported'' \<and> author_name p = Some a \<and> reference_url p = Inr u
        \<and> fs = [v, c, a, u, n @ [newline]])"
  by (auto simp: record_fields_def getitem_def map_indicator_type_def
        split: option.splits sum.splits if_splits)

lemma record_fields_error:
  "record_fields n p i = Inl e \<Longrightarrow> \<exists>k. e = KeyError k"
  by (auto simp: record_fields_def getitem_def map_indicator_type_def reference_url_def
        split: option.splits sum.splits if_splits list.splits)

text \<open>ASCII strings: the constants of the script, and what the join keeps.\<close>

lemma ascii_simps [simp]:
  "ascii []" "ascii (c # s) \<longleftrightarrow> (of_char c :: nat) < 128 \<and> ascii s"
  "ascii (s @ s') \<longleftrightarrow> ascii s \<and> ascii s'"
  by (simp_all add: ascii_def)

lemma category_ascii: "map_of MAP t = Some c \<Longrightarrow> ascii c"
  by (auto simp: MAP_def split: if_splits)

lemma reference_url_ascii:
  "references p = Some refs \<Longrightarrow> list_all ascii refs \<Longrightarrow> \<exists>u. reference_url p = Inr u \<and> ascii u"
  by (cases refs) (simp_all add: reference_url_def)

text \<open>The file of a run is the header followed by joined records, each built by
  \<open>record_fields\<close> for some pulse and indicator.\<close>

lemma write_indicator_shape:
  assumes "\<exists>recs. f = h # map (join [tab]) recs
      \<and> list_all (\<lambda>fs. \<exists>p i. record_fields n p i = Inr (Some fs)) recs"
  shows "\<exists>recs. snd (write_indicator n p i f) = h # map (join [tab]) recs
      \<and> list_all (\<lambda>fs. \<exists>p i. record_fields n p i = Inr (Some fs)) recs"
proof -
  from assms obtain recs where f: "f = h # map (join [tab]) recs"
    and built: "list_all (\<lambda>fs. \<exists>p i. record_fields n p i = Inr (Some fs)) recs"
    by blast
  show ?thesis
  proof (cases "record_fields n p i")
    case (Inl e)
    then show ?thesis using assms by (simp add: write_indicator_def)
  next
    case (Inr r)
    show ?thesis
    proof (cases r)
      case None
      then show ?thesis using Inr assms by (simp add: write_indicator_def)
    next
      case (Some fs)
      show ?thesis
      proof (cases "ascii n \<and> ascii (join [tab] fs)")
        case False
        then have "snd (write_indicator n p i f) = f"
          using Inr Some by (auto simp: write_indicator_def)
        then show ?thesis using assms by simp
      next
        case True
        then have "snd (write_indicator n p i f) = h # map (join [tab]) (recs @ [fs])"
          using Inr Some f by (simp add: write_indicator_def)
        moreover have "list_all (\<lambda>fs. \<exists>p i. record_fields n p i = Inr (Some fs)) (recs @ [fs])"
          using built Inr Some by auto
        ultimately show ?thesis by blast
      qed
    qed
  qed
qed

lemma write_pulse_shape:
  assumes "\<exists>recs. f = h # map (join [tab]) recs
      \<and> list_all (\<lambda>fs. \<exists>p i. record_fields n p i = Inr (Some fs)) recs"
  shows "\<exists>recs. snd (write_pulse n p f) = h # map (join [tab]) recs
      \<and> list_all (\<lambda>fs. \<exists>p i. record_fields n p i = Inr (Some fs)) recs"
proof (cases "indicators p")
  case None
  then show ?thesis using assms by (simp add: write_pulse_def getitem_def)
next
  case (Some inds)
  have "\<exists>recs. snd (for_each (write_indicator n p) inds f) = h # map (join [tab]) recs
      \<and> list_all (\<lambda>fs. \<exists>p i. record_fields n p i = Inr (Some fs)) recs"
    by (rule for_each_inv [where I = "\<lambda>f. \<exists>recs. f = h # map (join [tab]) recs
      \<and> list_all (\<lambda>fs. \<exists>p i. record_fields n p i = Inr (Some fs)) recs"])
       (rule write_indicator_shape, assumption, rule assms)
  then show ?thesis using Some by (simp add: write_pulse_def getitem_def)
qed

lemma main_file_shape:
  "\<exists>recs. fst (snd (main fuel http key mtime n)) = HEADER # map (join [tab]) recs
      \<and> list_all (\<lambda>fs. \<exists>p i. record_fields n p i = Inr (Some fs)) recs"
  unfolding main_def
proof (rule iter_pulses_inv [where I = "\<lambda>f. \<exists>recs. f = HEADER # map (join [tab]) recs
      \<and> list_all (\<lambda>fs. \<exists>p i. record_fields n p i = Inr (Some fs)) recs"])
  show "\<exists>recs. [HEADER] = HEADER # map (join [tab]) recs
      \<and> list_all (\<lambda>fs. \<exists>p i. record_fields n p i = Inr (Some fs)) recs"
    by (rule exI [of _ "[]"]) simp
qed (rule write_pulse_shape)

text \<open>The run up to the end of the first page.\<close>

lemma iter_pulses_first_page:
  assumes "http \<lparr>url = URL, api_key = key, params = Some (limit, mtime)\<rparr> = Some R"
    and "status_code R = 200" and "json R = Some pg" and "results pg = Some rs"
  shows "iter_pulses fuel http key mtime limit consume s out =
     (case for_each consume rs s of
        (Some e, s') \<Rightarrow> (Raised e, s', out)
      | (None, s') \<Rightarrow>
          (case next pg of
             None \<Rightarrow> (Raised (KeyError ''next''), s', out)
           | Some nx \<Rightarrow> pages_loop fuel http key mtime consume nx s' out))"
  using assms
  by (simp add: iter_pulses_def otx_get_def yield_page_def getitem_results_def getitem_next_def
        split: prod.splits option.splits sum.splits)

lemma write_indicator_line:
  assumes "indicator i = Some v" "type i = Some t" "map_indicator_type t = Inr c"
    "c \<noteq> ''Unsupported''" "author_name p = Some a" "reference_url p = Inr u"
    "ascii v" "ascii a" "ascii u" "ascii n"
  shows "write_indicator n p i f = (None, f @ [spec_line v c a u n])"
proof -
  from assms(3) have "map_of MAP t = Some c"
    by (auto simp: map_indicator_type_def split: option.splits)
  then have "ascii c" by (rule category_ascii)
  with assms show ?thesis
    by (simp add: write_indicator_def record_fields_def getitem_def spec_line_def)
qed


subsection \<open>Output records\<close>




text \<open>
  C4. Whatever the service answers and however far the run has come, the first string
  written to the file is the header, no later write is the header, and the bytes of
  the file begin with the header, which is the literal
  \<open>#fields\<close> tab \<open>indicator\<close> tab \<open>indicator_type\<close> tab \<open>meta.source\<close> tab \<open>meta.url\<close> tab
  \<open>meta.do_notice\<close> newline.
\<close>

theorem header_first:
  "(\<exists>recs. fst (snd (main fuel http key mtime do_notice)) = HEADER # recs \<and> HEADER \<notin> set recs)
   \<and> take (length HEADER) (contents (fst (snd (main fuel http key mtime do_notice)))) = HEADER
   \<and> HEADER = ''#fields'' @ [tab] @ ''indicator'' @ [tab] @ ''indicator_type'' @ [tab]
       @ ''meta.source'' @ [tab] @ ''meta.url'' @ [tab] @ ''meta.do_notice'' @ [newline]"
proof -
  obtain recs where f: "fst (snd (main fuel http key mtime do_notice)) = HEADER # map (join [tab]) recs"
    and built: "list_all (\<lambda>fs. \<exists>p i. record_fields do_notice p i = Inr (Some fs)) recs"
    using main_file_shape by blast
  have "HEADER \<noteq> join [tab] fs" if "fs \<in> set recs" for fs
  proof -
    from built that obtain p i where "record_fields do_notice p i = Inr (Some fs)"
      by (auto simp: list_all_iff)
    then obtain v t c a u where c: "map_of MAP t = Some c" "c \<noteq> ''Unsupported''"
      and fs: "fs = [v, c, a, u, do_notice @ [newline]]"
      unfolding record_fields_Some by blast
    have "CHR '':'' \<in> set (join [tab] fs)"
      using category_colon [OF c] by (simp add: fs)
    then show ?thesis using header_no_colon by metis
  qed
  then have "HEADER \<notin> set (map (join [tab]) recs)" by auto
  moreover have "take (length HEADER) (contents (fst (snd (main fuel http key mtime do_notice)))) = HEADER"
    by (simp add: f contents_def)
  ultimately show ?thesis using f by (simp add: HEADER_def)
qed

text \<open>
  C5. No record emitted has the sentinel \<open>Unsupported\<close> as its category. In every run
  the file is the header followed by the joined fields of records that
  \<open>record_fields\<close> built, each of five fields with a category (field 1, counting from
  0) other than \<open>Unsupported\<close>; whenever \<open>record_fields\<close> returns a record, its
  category is what \<open>map_indicator_type\<close> returned for the indicator's type and is not
  the sentinel; and an indicator whose type maps to the sentinel is skipped: no record
  is built and nothing is written.
\<close>

theorem no_unsupported_record:
  "(\<exists>recs. fst (snd (main fuel http key mtime do_notice)) = HEADER # map (join [tab]) recs
      \<and> list_all (\<lambda>fs. (\<exists>p i. record_fields do_notice p i = Inr (Some fs))
            \<and> length fs = 5 \<and> fs ! 1 \<noteq> ''Unsupported'') recs)
   \<and> (record_fields n p i = Inr (Some fs) \<longrightarrow>
        fs ! 1 \<noteq> ''Unsupported'' \<and> (\<exists>t. type i = Some t \<and> map_indicator_type t = Inr (fs ! 1)))
   \<and> (type i = Some t \<and> map_indicator_type t = Inr ''Unsupported'' \<longrightarrow>
        record_fields n p i = Inr None \<and> write_indicator n p i f = (None, f))"
proof -
  obtain recs where f: "fst (snd (main fuel http key mtime do_notice)) = HEADER # map (join [tab]) recs"
    and built: "list_all (\<lambda>fs. \<exists>p i. record_fields do_notice p i = Inr (Some fs)) recs"
    using main_file_shape by blast
  have "list_all (\<lambda>fs. (\<exists>p i. record_fields do_notice p i = Inr (Some fs))
            \<and> length fs = 5 \<and> fs ! 1 \<noteq> ''Unsupported'') recs"
    using built unfolding list_all_iff record_fields_Some by fastforce
  then have A: "\<exists>recs. fst (snd (main fuel http key mtime do_notice)) = HEADER # map (join [tab]) recs
      \<and> list_all (\<lambda>fs. (\<exists>p i. record_fields do_notice p i = Inr (Some fs))
            \<and> length fs = 5 \<and> fs ! 1 \<noteq> ''Unsupported'') recs"
    using f by blast
  have B: "record_fields n p i = Inr (Some fs) \<longrightarrow>
        fs ! 1 \<noteq> ''Unsupported'' \<and> (\<exists>t. type i = Some t \<and> map_indicator_type t = Inr (fs ! 1))"
    unfolding record_fields_Some by (auto simp: map_indicator_type_def)
  have C: "type i = Some t \<and> map_indicator_type t = Inr ''Unsupported'' \<longrightarrow>
        record_fields n p i = Inr None \<and> write_indicator n p i f = (None, f)"
    by (simp add: record_fields_def write_indicator_def getitem_def)
  from A B C show ?thesis by blast
qed

theorem no_unsupported_record_witness:
  "fst (snd (main 0 (one_page [pulse_X]) ''k'' ''2020-01-01'' ''T''))
     = [HEADER, join [tab] [''1.2.3.4'', ''Intel::ADDR'', ''X'', ''http://r'', ''T'' @ [newline]]]
   \<and> record_fields ''T'' pulse_X \<lparr>indicator = Some ''1.2.3.4'', type = Some ''IPv4''\<rparr>
     = Inr (Some [''1.2.3.4'', ''Intel::ADDR'', ''X'', ''http://r'', ''T'' @ [newline]])
   \<and> [''1.2.3.4'', ''Intel::ADDR'', ''X'', ''http://r'', ''T'' @ [newline]] ! 1 \<noteq> ''Unsupported''
   \<and> map_indicator_type ''CVE'' = Inr ''Unsupported''
   \<and> write_indicator ''T'' pulse_X \<lparr>indicator = Some ''CVE-2020-1'', type = Some ''CVE''\<rparr> [HEADER]
     = (None, [HEADER])"
proof -
  have run: "main 0 (one_page [pulse_X]) ''k'' ''2020-01-01'' ''T''
     = (Finished, [HEADER, join [tab] [''1.2.3.4'', ''Intel::ADDR'', ''X'', ''http://r'', ''T'' @ [newline]]], [])"
    by (simp add: main_def iter_pulses_def otx_get_def yield_page_def getitem_results_def
          getitem_next_def one_page_def pulse_X_def write_pulse_def write_indicator_def
          record_fields_def getitem_def map_indicator_type_def MAP_def reference_url_def)
  have built: "record_fields ''T'' pulse_X \<lparr>indicator = Some ''1.2.3.4'', type = Some ''IPv4''\<rparr>
     = Inr (Some [''1.2.3.4'', ''Intel::ADDR'', ''X'', ''http://r'', ''T'' @ [newline]])"
    by (simp add: record_fields_def getitem_def map_indicator_type_def MAP_def reference_url_def
          pulse_X_def)
  have cve: "map_indicator_type ''CVE'' = Inr ''Unsupported''"
    by (simp add: map_indicator_type_def MAP_def)
  show ?thesis
    using run built cve
      no_unsupported_record [where n = "''T''" and p = pulse_X
        and i = "\<lparr>indicator = Some ''1.2.3.4'', type = Some ''IPv4''\<rparr>"
        and fs = "[''1.2.3.4'', ''Intel::ADDR'', ''X'', ''http://r'', ''T'' @ [newline]]"]
      no_unsupported_record [where n = "''T''" and p = pulse_X
        and i = "\<lparr>indicator = Some ''CVE-2020-1'', type = Some ''CVE''\<rparr>"
        and t = "''CVE''" and f = "[HEADER]"]
    by simp
qed

text \<open>
  C6. Every record built for an indicator of a pulse whose reference list is empty has
  the fixed fallback URL \<open>https://otx.alienvault.com\<close> as its URL field (field 3,
  counting from 0); every record built for an indicator of a pulse whose reference list
  is not empty has the first element of that list there.
\<close>

theorem reference_url_field:
  "(record_fields n p i = Inr (Some fs) \<and> references p = Some [] \<longrightarrow>
      length fs = 5 \<and> fs ! 3 = ''https://otx.alienvault.com'')
   \<and> (record_fields n p i = Inr (Some fs) \<and> references p = Some (u # us) \<longrightarrow>
      length fs = 5 \<and> fs ! 3 = u)"
  unfolding record_fields_Some by (auto simp: reference_url_def)

theorem reference_url_field_witness:
  "record_fields ''T'' pulse_Y \<lparr>indicator = Some ''evil.example'', type = Some ''domain''\<rparr>
     = Inr (Some [''evil.example'', ''Intel::DOMAIN'', ''Y'', ''https://otx.alienvault.com'', ''T'' @ [newline]])
   \<and> references pulse_Y = Some []
   \<and> [''evil.example'', ''Intel::DOMAIN'', ''Y'', ''https://otx.alienvault.com'', ''T'' @ [newline]] ! 3
       = ''https://otx.alienvault.com''
   \<and> record_fields ''T'' pulse_X \<lparr>indicator = Some ''1.2.3.4'', type = Some ''IPv4''\<rparr>
     = Inr (Some [''1.2.3.4'', ''Intel::ADDR'', ''X'', ''http://r'', ''T'' @ [newline]])
   \<and> references pulse_X = Some [''http://r'']
   \<and> [''1.2.3.4'', ''Intel::ADDR'', ''X'', ''http://r'', ''T'' @ [newline]] ! 3 = ''http://r''"
  using reference_url_field [where n = "''T''" and p = pulse_Y
        and i = "\<lparr>indicator = Some ''evil.example'', type = Some ''domain''\<rparr>"
        and fs = "[''evil.example'', ''Intel::DOMAIN'', ''Y'', ''https://otx.alienvault.com'', ''T'' @ [newline]]"]
    reference_url_field [where n = "''T''" and p = pulse_X
        and i = "\<lparr>indicator = Some ''1.2.3.4'', type = Some ''IPv4''\<rparr>"
        and fs = "[''1.2.3.4'', ''Intel::ADDR'', ''X'', ''http://r'', ''T'' @ [newline]]"
        and u = "''http://r''" and us = "[]"]
  by (simp add: record_fields_def getitem_def map_indicator_type_def MAP_def reference_url_def
        pulse_X_def pulse_Y_def)

subsection \<open>Lookup errors\<close>

text \<open>An exception raised while the first pulse of the first page is written ends the
  run.\<close>

lemma main_first_pulse_raises:
  assumes h: "http \<lparr>url = URL, api_key = key, params = Some (20, mtime)\<rparr> = Some R"
    and st: "status_code R = 200" and js: "json R = Some pg"
    and rs: "results pg = Some (p # ps)"
    and w: "write_pulse n p [HEADER] = (Some e, f)"
  shows "main fuel http key mtime n = (Raised e, f, [])"
  using iter_pulses_first_page [of http key 20 mtime R pg "p # ps" fuel "write_pulse n" "[HEADER]" "[]"]
    h st js rs w
  by (simp add: main_def)

text \<open>
  C10. Only the index error of an empty reference list is caught. For a pulse without
  the \<open>references\<close> key, the record builder raises \<open>KeyError\<close> as soon as it reaches
  an indicator whose type maps to a supported category: no record is built and nothing
  is written, and when this is the first indicator of the first pulse of the first page
  the run ends with that error, exit status 1 and only the header in the file. With
  the key present and the list empty the URL field is the fallback; and a record whose
  URL field is the fallback comes from an empty list, or from a list whose first
  element is that very URL.
\<close>

theorem missing_references_key:
  "(references p = None \<and> type i = Some t \<and> map_indicator_type t = Inr c \<and> c \<noteq> ''Unsupported'' \<longrightarrow>
      record_fields n p i = Inl (KeyError ''references'')
      \<and> write_indicator n p i f = (Some (KeyError ''references''), f))
   \<and> (references p = Some [] \<and> record_fields n p i = Inr (Some fs) \<longrightarrow>
      fs ! 3 = ''https://otx.alienvault.com'')
   \<and> (record_fields n p i = Inr (Some fs) \<and> fs ! 3 = ''https://otx.alienvault.com'' \<longrightarrow>
      references p = Some [] \<or> (\<exists>us. references p = Some (''https://otx.alienvault.com'' # us)))
   \<and> (http \<lparr>url = URL, api_key = key, params = Some (20, mtime)\<rparr> = Some R
      \<and> status_code R = 200 \<and> json R = Some pg \<and> results pg = Some (p # ps)
      \<and> indicators p = Some (i # inds)
      \<and> references p = None \<and> type i = Some t \<and> map_indicator_type t = Inr c \<and> c \<noteq> ''Unsupported'' \<longrightarrow>
      write_pulse n p f = (Some (KeyError ''references''), f)
      \<and> main fuel http key mtime n = (Raised (KeyError ''references''), [HEADER], [])
      \<and> exit_code (fst (main fuel http key mtime n)) = Some 1)"
proof -
  have A: "record_fields n p i = Inl (KeyError ''references'')
      \<and> write_indicator n p i f = (Some (KeyError ''references''), f)"
    if "references p = None" "type i = Some t" "map_indicator_type t = Inr c" "c \<noteq> ''Unsupported''"
    for f
    using that
    by (simp add: record_fields_def write_indicator_def getitem_def reference_url_def)
  have B: "record_fields n p i = Inr (Some fs) \<Longrightarrow> references p = Some [] \<Longrightarrow>
      fs ! 3 = ''https://otx.alienvault.com''"
    unfolding record_fields_Some by (auto simp: reference_url_def)
  have C: "record_fields n p i = Inr (Some fs) \<Longrightarrow> fs ! 3 = ''https://otx.alienvault.com'' \<Longrightarrow>
      references p = Some [] \<or> (\<exists>us. references p = Some (''https://otx.alienvault.com'' # us))"
    unfolding record_fields_Some
    by (auto simp: reference_url_def split: option.splits list.splits)
  have D: "write_pulse n p f = (Some (KeyError ''references''), f)
      \<and> main fuel http key mtime n = (Raised (KeyError ''references''), [HEADER], [])
      \<and> exit_code (fst (main fuel http key mtime n)) = Some 1"
    if h: "http \<lparr>url = URL, api_key = key, params = Some (20, mtime)\<rparr> = Some R"
      and st: "status_code R = 200" and js: "json R = Some pg"
      and rs: "results pg = Some (p # ps)"
      and inds: "indicators p = Some (i # inds)"
      and rest: "references p = None" "type i = Some t" "map_indicator_type t = Inr c" "c \<noteq> ''Unsupported''"
  proof -
    have w: "write_pulse n p g = (Some (KeyError ''references''), g)" for g
      using A [OF rest, of g] inds by (simp add: write_pulse_def getitem_def)
    from main_first_pulse_raises [where http = http and key = key and mtime = mtime and fuel = fuel,
        OF h st js rs w [of "[HEADER]"]] w [of f]
    show ?thesis by simp
  qed
  from A B C D show ?thesis by blast
qed

theorem missing_references_key_witness:
  "main 3 (one_page [pulse_N]) ''k'' ''2020-01-01'' ''T'' = (Raised (KeyError ''references''), [HEADER], [])
   \<and> exit_code (fst (main 3 (one_page [pulse_N]) ''k'' ''2020-01-01'' ''T'')) = Some 1
   \<and> write_indicator ''T'' pulse_N \<lparr>indicator = Some ''10.0.0.1'', type = Some ''IPv4''\<rparr> [HEADER]
       = (Some (KeyError ''references''), [HEADER])
   \<and> references pulse_Y = Some []
   \<and> record_fields ''T'' pulse_Y \<lparr>indicator = Some ''evil.example'', type = Some ''domain''\<rparr>
     = Inr (Some [''evil.example'', ''Intel::DOMAIN'', ''Y'', ''https://otx.alienvault.com'', ''T'' @ [newline]])"
  using missing_references_key [where p = pulse_N
        and i = "\<lparr>indicator = Some ''10.0.0.1'', type = Some ''IPv4''\<rparr>" and t = "''IPv4''"
        and c = "''Intel::ADDR''" and n = "''T''" and f = "[HEADER]" and http = "one_page [pulse_N]"
        and key = "''k''" and mtime = "''2020-01-01''" and ps = "[]" and inds = "[]" and fuel = 3
        and R = "\<lparr>status_code = 200, json = Some \<lparr>results = Some [pulse_N], next = Some Null\<rparr>\<rparr>"
        and pg = "\<lparr>results = Some [pulse_N], next = Some Null\<rparr>"]
    missing_references_key [where p = pulse_Y and n = "''T''"
        and i = "\<lparr>indicator = Some ''evil.example'', type = Some ''domain''\<rparr>"
        and fs = "[''evil.example'', ''Intel::DOMAIN'', ''Y'', ''https://otx.alienvault.com'', ''T'' @ [newline]]"]
  by (simp add: one_page_def pulse_N_def pulse_Y_def map_indicator_type_def MAP_def
        record_fields_def getitem_def reference_url_def)

text \<open>
  C8. For every type tag that is not a key of the table, \<open>map_indicator_type\<close> raises
  \<open>KeyError\<close> with that tag. The error is not caught: the record builder and the
  write of the indicator return it and write nothing, the loop over the indicators
  of the pulse stops there with what the earlier indicators wrote, and when the pulse is
  the first of the first page the run ends with this error and exit status 1. The
  indicator is neither dropped silently nor given a default category.
\<close>

theorem unknown_type_fatal:
  "(t \<notin> fst ` set MAP \<longrightarrow> map_indicator_type t = Inl (KeyError t))
   \<and> (type i = Some t \<and> t \<notin> fst ` set MAP \<longrightarrow>
        record_fields n p i = Inl (KeyError t) \<and> write_indicator n p i f = (Some (KeyError t), f))
   \<and> (indicators p = Some (before @ i # inds)
        \<and> for_each (write_indicator n p) before f = (None, f')
        \<and> type i = Some t \<and> t \<notin> fst ` set MAP \<longrightarrow>
        write_pulse n p f = (Some (KeyError t), f'))
   \<and> (http \<lparr>url = URL, api_key = key, params = Some (20, mtime)\<rparr> = Some R
        \<and> status_code R = 200 \<and> json R = Some pg \<and> results pg = Some (p # ps)
        \<and> indicators p = Some (before @ i # inds)
        \<and> for_each (write_indicator n p) before [HEADER] = (None, f')
        \<and> type i = Some t \<and> t \<notin> fst ` set MAP \<longrightarrow>
        main fuel http key mtime n = (Raised (KeyError t), f', [])
        \<and> exit_code (fst (main fuel http key mtime n)) = Some 1)"
proof -
  have A: "map_indicator_type t = Inl (KeyError t)" if "t \<notin> fst ` set MAP"
  proof -
    from that have "map_of MAP t = None" by (simp add: map_of_eq_None_iff)
    then show ?thesis by (simp add: map_indicator_type_def)
  qed
  have B: "record_fields n p i = Inl (KeyError t) \<and> write_indicator n p i g = (Some (KeyError t), g)"
    if "type i = Some t" "t \<notin> fst ` set MAP" for g
    using that A by (simp add: record_fields_def write_indicator_def getitem_def)
  have C: "write_pulse n p g = (Some (KeyError t), g')"
    if "indicators p = Some (before @ i # inds)" "for_each (write_indicator n p) before g = (None, g')"
      "type i = Some t" "t \<notin> fst ` set MAP" for g g'
    using that B [of g'] by (simp add: write_pulse_def getitem_def for_each_append)
  have D: "main fuel http key mtime n = (Raised (KeyError t), f', [])
        \<and> exit_code (fst (main fuel http key mtime n)) = Some 1"
    if h: "http \<lparr>url = URL, api_key = key, params = Some (20, mtime)\<rparr> = Some R"
      and st: "status_code R = 200" and js: "json R = Some pg"
      and rs: "results pg = Some (p # ps)"
      and rest: "indicators p = Some (before @ i # inds)"
        "for_each (write_indicator n p) before [HEADER] = (None, f')"
        "type i = Some t" "t \<notin> fst ` set MAP"
    using main_first_pulse_raises [where http = http and key = key and mtime = mtime and fuel = fuel,
        OF h st js rs C [OF rest]] by simp
  from A B C D show ?thesis by blast
qed

theorem unknown_type_fatal_witness:
  "''YARA'' \<notin> fst ` set MAP
   \<and> map_indicator_type ''YARA'' = Inl (KeyError ''YARA'')
   \<and> write_indicator ''T'' pulse_Z \<lparr>indicator = Some ''rule Z {}'', type = Some ''YARA''\<rparr> [HEADER]
       = (Some (KeyError ''YARA''), [HEADER])
   \<and> main 3 (one_page [pulse_Z, pulse_X]) ''k'' ''2020-01-01'' ''T''
       = (Raised (KeyError ''YARA''), [HEADER], [])
   \<and> exit_code (fst (main 3 (one_page [pulse_Z, pulse_X]) ''k'' ''2020-01-01'' ''T'')) = Some 1"
  using unknown_type_fatal [where t = "''YARA''" and p = pulse_Z and n = "''T''" and f = "[HEADER]"
        and f' = "[HEADER]" and i = "\<lparr>indicator = Some ''rule Z {}'', type = Some ''YARA''\<rparr>"
        and before = "[]" and inds = "[]" and http = "one_page [pulse_Z, pulse_X]"
        and key = "''k''" and mtime = "''2020-01-01''" and ps = "[pulse_X]" and fuel = 3
        and R = "\<lparr>status_code = 200,
            json = Some \<lparr>results = Some [pulse_Z, pulse_X], next = Some Null\<rparr>\<rparr>"
        and pg = "\<lparr>results = Some [pulse_Z, pulse_X], next = Some Null\<rparr>"]
  by (simp add: one_page_def pulse_Z_def MAP_def)

subsection \<open>Response statuses\<close>

lemma otx_get_fatal:
  assumes "c = 403 \<or> c = 400" and "status_code R = c"
  shows "http \<lparr>url = URL, api_key = key, params = Some (limit, mtime)\<rparr> = Some R \<Longrightarrow>
      otx_get http key mtime limit '''' out = (Inl (SystemExit 1), out @ [fatal_message c])"
    and "nr \<noteq> '''' \<Longrightarrow> http \<lparr>url = nr, api_key = key, params = None\<rparr> = Some R \<Longrightarrow>
      otx_get http key mtime limit nr out = (Inl (SystemExit 1), out @ [fatal_message c])"
  using assms by (auto simp: otx_get_def fatal_message_def)

lemma otx_get_unhandled:
  assumes "c \<noteq> 200" "c \<noteq> 403" "c \<noteq> 400" and "status_code R = c"
  shows "http \<lparr>url = URL, api_key = key, params = Some (limit, mtime)\<rparr> = Some R \<Longrightarrow>
      otx_get http key mtime limit '''' out = (Inr None, out)"
    and "nr \<noteq> '''' \<Longrightarrow> http \<lparr>url = nr, api_key = key, params = None\<rparr> = Some R \<Longrightarrow>
      otx_get http key mtime limit nr out = (Inr None, out)"
  using assms by (auto simp: otx_get_def)

lemma truthy_link_url: "truthy nx \<Longrightarrow> link_url nx \<noteq> ''''"
  by (cases nx) simp_all

text \<open>Well-formed input is written without an exception, and well-formed pages are
  walked to the end.\<close>

lemma for_each_no_error:
  "(\<And>x s. x \<in> set xs \<Longrightarrow> fst (body x s) = None) \<Longrightarrow> fst (for_each body xs s) = None"
proof (induction xs arbitrary: s)
  case Nil
  then show ?case by simp
next
  case (Cons x xs)
  have "fst (body x s) = None" using Cons.prems by simp
  moreover have "fst (for_each body xs s') = None" for s'
    using Cons.IH Cons.prems by simp
  ultimately show ?case by (auto split: prod.splits option.splits)
qed

lemma wf_indicator_writes:
  assumes "wf_indicator i" "author_name p = Some a" "ascii a" "reference_url p = Inr u" "ascii u"
    "ascii n"
  shows "fst (write_indicator n p i f) = None"
proof -
  from assms(1) obtain v t c where i: "indicator i = Some v" "ascii v" "type i = Some t"
    "map_of MAP t = Some c"
    by (auto simp: wf_indicator_def split: option.splits)
  show ?thesis
  proof (cases "c = ''Unsupported''")
    case True
    then show ?thesis using i
      by (simp add: write_indicator_def record_fields_def getitem_def map_indicator_type_def)
  next
    case False
    have "map_indicator_type t = Inr c" using i by (simp add: map_indicator_type_def)
    with False i assms have "write_indicator n p i f = (None, f @ [spec_line v c a u n])"
      by (intro write_indicator_line) simp_all
    then show ?thesis by simp
  qed
qed

lemma wf_pulse_writes: "wf_pulse n p \<Longrightarrow> fst (write_pulse n p f) = None"
proof -
  assume wf: "wf_pulse n p"
  then obtain a refs inds where p: "ascii n" "author_name p = Some a" "ascii a"
    "references p = Some refs" "list_all ascii refs" "indicators p = Some inds"
    "list_all wf_indicator inds"
    by (auto simp: wf_pulse_def split: option.splits)
  from reference_url_ascii [OF p(4,5)] obtain u where u: "reference_url p = Inr u" "ascii u"
    by blast
  have "fst (for_each (write_indicator n p) inds f) = None"
    by (rule for_each_no_error)
       (use p u in \<open>auto intro!: wf_indicator_writes simp: list_all_iff\<close>)
  then show ?thesis using p by (simp add: write_pulse_def getitem_def)
qed

lemma wf_response_page:
  assumes "wf_response n (http req)"
  obtains R pg rs nx where "http req = Some R" "status_code R = 200" "json R = Some pg"
    "results pg = Some rs" "list_all (wf_pulse n) rs" "next pg = Some nx"
    "page_link (http req) = nx"
  using assms by (auto simp: wf_response_def page_link_def split: option.splits)

lemma wf_page_yield:
  assumes "results pg = Some rs" "list_all (wf_pulse n) rs" "next pg = Some nx"
  shows "\<exists>f'. yield_page (Some pg) (write_pulse n) f = (Inr nx, f')"
proof -
  have "fst (for_each (write_pulse n) rs f) = None"
    by (rule for_each_no_error) (use assms in \<open>auto intro!: wf_pulse_writes simp: list_all_iff\<close>)
  then obtain f' where "for_each (write_pulse n) rs f = (None, f')"
    by (cases "for_each (write_pulse n) rs f") auto
  then show ?thesis using assms
    by (simp add: yield_page_def getitem_results_def getitem_next_def)
qed

lemma wf_pages_finish:
  "wf_pages k http key n nx \<Longrightarrow> k \<le> fuel \<Longrightarrow>
     fst (pages_loop fuel http key mtime (write_pulse n) nx f out) = Finished
     \<and> snd (snd (pages_loop fuel http key mtime (write_pulse n) nx f out)) = out"
proof (induction k arbitrary: fuel nx f)
  case 0
  then have "\<not> truthy nx" by (simp split: if_splits)
  then show ?case by (cases fuel) simp_all
next
  case (Suc k)
  show ?case
  proof (cases "truthy nx")
    case False
    then show ?thesis by (cases fuel) simp_all
  next
    case True
    from Suc.prems(2) obtain fuel' where fuel: "fuel = Suc fuel'" "k \<le> fuel'"
      by (cases fuel) auto
    from Suc.prems(1) True
    have wr: "wf_response n (http \<lparr>url = link_url nx, api_key = key, params = None\<rparr>)"
      and wp: "wf_pages k http key n
                 (page_link (http \<lparr>url = link_url nx, api_key = key, params = None\<rparr>))"
      by simp_all
    from wr obtain R pg rs nx' where
      R: "http \<lparr>url = link_url nx, api_key = key, params = None\<rparr> = Some R"
        "status_code R = 200" "json R = Some pg"
      and pg: "results pg = Some rs" "list_all (wf_pulse n) rs" "next pg = Some nx'"
      and l: "page_link (http \<lparr>url = link_url nx, api_key = key, params = None\<rparr>) = nx'"
      by (rule wf_response_page)
    have g: "otx_get http key mtime 20 (link_url nx) out = (Inr (Some pg), out)"
      using R truthy_link_url [OF True] by (simp add: otx_get_def)
    from wf_page_yield [OF pg, of f] obtain f' where
      y: "yield_page (Some pg) (write_pulse n) f = (Inr nx', f')" by blast
    from Suc.IH [of nx' fuel' f'] wp l fuel
    have "fst (pages_loop fuel' http key mtime (write_pulse n) nx' f' out) = Finished
      \<and> snd (snd (pages_loop fuel' http key mtime (write_pulse n) nx' f' out)) = out"
      by simp
    then show ?thesis using True fuel g y by simp
  qed
qed

lemma wf_run_finish:
  assumes "wf_run k http key mtime n" "k \<le> fuel"
  shows "fst (main fuel http key mtime n) = Finished \<and> snd (snd (main fuel http key mtime n)) = []"
proof -
  from assms(1)
  have wr: "wf_response n (http \<lparr>url = URL, api_key = key, params = Some (20, mtime)\<rparr>)"
    and wp: "wf_pages k http key n
               (page_link (http \<lparr>url = URL, api_key = key, params = Some (20, mtime)\<rparr>))"
    by (simp_all add: wf_run_def)
  from wr obtain R pg rs nx where
    R: "http \<lparr>url = URL, api_key = key, params = Some (20, mtime)\<rparr> = Some R"
      "status_code R = 200" "json R = Some pg"
    and pg: "results pg = Some rs" "list_all (wf_pulse n) rs" "next pg = Some nx"
    and l: "page_link (http \<lparr>url = URL, api_key = key, params = Some (20, mtime)\<rparr>) = nx"
    by (rule wf_response_page)
  have g: "otx_get http key mtime 20 '''' [] = (Inr (Some pg), [])"
    using R by (simp add: otx_get_def)
  from wf_page_yield [OF pg, of "[HEADER]"] obtain f' where
    y: "yield_page (Some pg) (write_pulse n) [HEADER] = (Inr nx, f')" by blast
  from wf_pages_finish [of k http key n nx fuel mtime f' "[]"] wp l assms(2)
  have "fst (pages_loop fuel http key mtime (write_pulse n) nx f' []) = Finished
      \<and> snd (snd (pages_loop fuel http key mtime (write_pulse n) nx f' [])) = []"
    by simp
  then show ?thesis using g y by (simp add: main_def iter_pulses_def)
qed

text \<open>
  C7, amended. A request answered with status 403 ends the process at once with the
  message of an invalid API key and exit status 1, and one answered with status 400
  with the message of an invalid request and exit status 1: this holds for the first
  request, where only the header has been written, for the request of any later page in
  any state of the loop, which leaves the consumer's state as it was, and for the run
  whose first page is written and whose second request is refused. A run in which every
  request made is answered with status 200 and a well-formed page (both keys, pulses
  and indicators with their keys, types of the table, ASCII strings and notice flag),
  and whose last page has an empty link, completes normally with exit status 0 and
  prints nothing, once the fuel covers its pages.
\<close>

theorem fatal_statuses:
  "((c = 403 \<or> c = 400)
      \<and> http \<lparr>url = URL, api_key = key, params = Some (20, mtime)\<rparr> = Some R
      \<and> status_code R = c \<longrightarrow>
      main fuel http key mtime n = (Raised (SystemExit 1), [HEADER], [fatal_message c])
      \<and> exit_code (fst (main fuel http key mtime n)) = Some 1)
   \<and> ((c = 403 \<or> c = 400) \<and> truthy nx
      \<and> http \<lparr>url = link_url nx, api_key = key, params = None\<rparr> = Some R
      \<and> status_code R = c \<longrightarrow>
      pages_loop (Suc fuel) http key mtime consume nx s out
        = (Raised (SystemExit 1), s, out @ [fatal_message c])
      \<and> exit_code (fst (pages_loop (Suc fuel) http key mtime consume nx s out)) = Some 1)
   \<and> ((c = 403 \<or> c = 400)
      \<and> http \<lparr>url = URL, api_key = key, params = Some (20, mtime)\<rparr> = Some R1
      \<and> status_code R1 = 200 \<and> json R1 = Some pg \<and> results pg = Some rs
      \<and> for_each (write_pulse n) rs [HEADER] = (None, f)
      \<and> next pg = Some nx \<and> truthy nx
      \<and> http \<lparr>url = link_url nx, api_key = key, params = None\<rparr> = Some R
      \<and> status_code R = c \<longrightarrow>
      main (Suc fuel) http key mtime n = (Raised (SystemExit 1), f, [fatal_message c])
      \<and> exit_code (fst (main (Suc fuel) http key mtime n)) = Some 1)
   \<and> (wf_run k http key mtime n \<and> k \<le> fuel \<longrightarrow>
      fst (main fuel http key mtime n) = Finished
      \<and> exit_code (fst (main fuel http key mtime n)) = Some 0
      \<and> snd (snd (main fuel http key mtime n)) = [])"
proof -
  have A: "main fuel http key mtime n = (Raised (SystemExit 1), [HEADER], [fatal_message c])
      \<and> exit_code (fst (main fuel http key mtime n)) = Some 1"
    if "c = 403 \<or> c = 400"
      "http \<lparr>url = URL, api_key = key, params = Some (20, mtime)\<rparr> = Some R" "status_code R = c"
    using otx_get_fatal(1) [OF that(1,3), where http = http and key = key and limit = 20
        and mtime = mtime and out = "[]"] that(2)
    by (simp add: main_def iter_pulses_def)
  have B: "pages_loop (Suc fuel) http key mtime cs nx st out
        = (Raised (SystemExit 1), st, out @ [fatal_message c])
      \<and> exit_code (fst (pages_loop (Suc fuel) http key mtime cs nx st out)) = Some 1"
    if "c = 403 \<or> c = 400" "truthy nx"
      "http \<lparr>url = link_url nx, api_key = key, params = None\<rparr> = Some R" "status_code R = c"
    for cs :: "pulse \<Rightarrow> 'c \<Rightarrow> error option \<times> 'c" and st out
    using otx_get_fatal(2) [OF that(1,4), where nr = "link_url nx" and http = http and key = key
        and limit = 20 and mtime = mtime and out = out]
      truthy_link_url [OF that(2)] that(2,3)
    by simp
  have C: "main (Suc fuel) http key mtime n = (Raised (SystemExit 1), f, [fatal_message c])
      \<and> exit_code (fst (main (Suc fuel) http key mtime n)) = Some 1"
    if c: "c = 403 \<or> c = 400"
      and h: "http \<lparr>url = URL, api_key = key, params = Some (20, mtime)\<rparr> = Some R1"
      and st: "status_code R1 = 200" and js: "json R1 = Some pg"
      and rs: "results pg = Some rs"
      and w: "for_each (write_pulse n) rs [HEADER] = (None, f)"
      and nx: "next pg = Some nx"
      and t: "truthy nx"
      and h2: "http \<lparr>url = link_url nx, api_key = key, params = None\<rparr> = Some R"
      and st2: "status_code R = c"
    using iter_pulses_first_page [of http key 20 mtime R1 pg rs "Suc fuel" "write_pulse n"
        "[HEADER]" "[]"]
      h st js rs w nx B [OF c t h2 st2, of "write_pulse n" f "[]"]
    by (simp add: main_def)
  have D: "fst (main fuel http key mtime n) = Finished
      \<and> exit_code (fst (main fuel http key mtime n)) = Some 0
      \<and> snd (snd (main fuel http key mtime n)) = []"
    if "wf_run k http key mtime n" "k \<le> fuel"
    using wf_run_finish [OF that] by simp
  from A B [of consume s out] C D show ?thesis by blast
qed

theorem fatal_statuses_witness:
  "main 0 (always_status 403) ''k'' ''2020-01-01'' ''T''
     = (Raised (SystemExit 1), [HEADER], [''An invalid API key was specified.''])
   \<and> main 0 (always_status 400) ''k'' ''2020-01-01'' ''T''
     = (Raised (SystemExit 1), [HEADER], [''An invalid request was made.''])
   \<and> exit_code (fst (main 0 (always_status 403) ''k'' ''2020-01-01'' ''T'')) = Some 1
   \<and> main (Suc 0) (page_then_status [pulse_X] 403) ''k'' ''2020-01-01'' ''T''
     = (Raised (SystemExit 1), [HEADER, spec_line ''1.2.3.4'' ''Intel::ADDR'' ''X'' ''http://r'' ''T''],
        [''An invalid API key was specified.''])
   \<and> pages_loop (Suc 0) (always_status 400) ''k'' ''2020-01-01'' collect (Str ''http://otx/page2'')
       [pulse_X] [] = (Raised (SystemExit 1), [pulse_X], [''An invalid request was made.''])
   \<and> wf_run 1 (two_pages [pulse_X] [pulse_Y]) ''k'' ''2020-01-01'' ''T''
   \<and> fst (main 3 (two_pages [pulse_X] [pulse_Y]) ''k'' ''2020-01-01'' ''T'') = Finished
   \<and> exit_code (fst (main 3 (two_pages [pulse_X] [pulse_Y]) ''k'' ''2020-01-01'' ''T'')) = Some 0"
proof -
  have w: "for_each (write_pulse ''T'') [pulse_X] [HEADER]
      = (None, [HEADER, spec_line ''1.2.3.4'' ''Intel::ADDR'' ''X'' ''http://r'' ''T''])"
    by (simp add: write_pulse_def write_indicator_def record_fields_def getitem_def
          map_indicator_type_def MAP_def reference_url_def pulse_X_def spec_line_def)
  have wf: "wf_run 1 (two_pages [pulse_X] [pulse_Y]) ''k'' ''2020-01-01'' ''T''"
    by (simp add: wf_run_def wf_response_def page_link_def wf_pulse_def wf_indicator_def
          two_pages_def pulse_X_def pulse_Y_def MAP_def URL_def)
  note thm403 = fatal_statuses [where c = 403 and http = "always_status 403" and key = "''k''"
        and mtime = "''2020-01-01''" and n = "''T''" and fuel = 0
        and R = "\<lparr>status_code = 403, json = None\<rparr>"]
  note thm400 = fatal_statuses [where c = 400 and http = "always_status 400" and key = "''k''"
        and mtime = "''2020-01-01''" and n = "''T''" and fuel = 0
        and R = "\<lparr>status_code = 400, json = None\<rparr>"
        and nx = "Str ''http://otx/page2''" and consume = collect and s = "[pulse_X]" and out = "[]"]
  note thm2nd = fatal_statuses [where c = 403 and http = "page_then_status [pulse_X] 403"
        and key = "''k''" and mtime = "''2020-01-01''" and n = "''T''" and fuel = 0
        and ?R1.0 = "\<lparr>status_code = 200,
            json = Some \<lparr>results = Some [pulse_X], next = Some (Str ''http://otx/page2'')\<rparr>\<rparr>"
        and pg = "\<lparr>results = Some [pulse_X], next = Some (Str ''http://otx/page2'')\<rparr>"
        and R = "\<lparr>status_code = 403, json = None\<rparr>"
        and rs = "[pulse_X]" and nx = "Str ''http://otx/page2''"
        and f = "[HEADER, spec_line ''1.2.3.4'' ''Intel::ADDR'' ''X'' ''http://r'' ''T'']"]
  note thm200 = fatal_statuses [where http = "two_pages [pulse_X] [pulse_Y]" and key = "''k''"
        and mtime = "''2020-01-01''" and n = "''T''" and fuel = 3 and k = 1]
  have a: "main 0 (always_status 403) ''k'' ''2020-01-01'' ''T''
       = (Raised (SystemExit 1), [HEADER], [''An invalid API key was specified.''])
     \<and> exit_code (fst (main 0 (always_status 403) ''k'' ''2020-01-01'' ''T'')) = Some 1"
    using thm403 [THEN conjunct1] by (simp add: always_status_def fatal_message_def)
  have b: "main 0 (always_status 400) ''k'' ''2020-01-01'' ''T''
       = (Raised (SystemExit 1), [HEADER], [''An invalid request was made.''])"
    using thm400 [THEN conjunct1] by (simp add: always_status_def fatal_message_def)
  have c: "pages_loop (Suc 0) (always_status 400) ''k'' ''2020-01-01'' collect (Str ''http://otx/page2'')
       [pulse_X] [] = (Raised (SystemExit 1), [pulse_X], [''An invalid request was made.''])"
    using thm400 [THEN conjunct2, THEN conjunct1]
    by (simp add: always_status_def fatal_message_def del: pages_loop.simps)
  have d: "main (Suc 0) (page_then_status [pulse_X] 403) ''k'' ''2020-01-01'' ''T''
     = (Raised (SystemExit 1), [HEADER, spec_line ''1.2.3.4'' ''Intel::ADDR'' ''X'' ''http://r'' ''T''],
        [''An invalid API key was specified.''])"
    using thm2nd [THEN conjunct2, THEN conjunct2, THEN conjunct1] w
    by (simp add: page_then_status_def fatal_message_def URL_def)
  have e: "fst (main 3 (two_pages [pulse_X] [pulse_Y]) ''k'' ''2020-01-01'' ''T'') = Finished
     \<and> exit_code (fst (main 3 (two_pages [pulse_X] [pulse_Y]) ''k'' ''2020-01-01'' ''T'')) = Some 0"
    using thm200 [THEN conjunct2, THEN conjunct2, THEN conjunct2] wf by simp
  from a b c d e wf show ?thesis by simp
qed

text \<open>C7 as stated fails: here is a run in which every request is answered with status
  200 and which does not complete normally. The one pulse of the page has an indicator
  of type \<open>YARA\<close>, which is not in the table, and the run ends with \<open>KeyError\<close> and
  exit status 1.\<close>

theorem all_200_exit_0_counterexample:
  "(\<forall>req. \<exists>r. one_page [pulse_Z] req = Some r \<and> status_code r = 200)
   \<and> (\<forall>fuel. main fuel (one_page [pulse_Z]) ''k'' ''2020-01-01'' ''T''
         = (Raised (KeyError ''YARA''), [HEADER], [])
       \<and> exit_code (fst (main fuel (one_page [pulse_Z]) ''k'' ''2020-01-01'' ''T'')) = Some 1)"
  by (simp add: main_def iter_pulses_def otx_get_def yield_page_def getitem_results_def
        one_page_def pulse_Z_def write_pulse_def write_indicator_def record_fields_def getitem_def
        map_indicator_type_def MAP_def)

text \<open>
  C9. For a response whose status is none of 200, 403 and 400, \<open>_get\<close> returns \<open>None\<close>
  without printing and without exiting, on the first request as on a later one. The
  lookup of \<open>results\<close> in \<open>iter_pulses\<close> then raises \<open>TypeError\<close>: the generator
  ends without yielding a pulse of that response, the consumer's state and standard
  output are as before the request, and when it is the first request the file holds
  the header only and the exit status is 1.
\<close>

theorem unhandled_status:
  "(c \<noteq> 200 \<and> c \<noteq> 403 \<and> c \<noteq> 400
      \<and> http \<lparr>url = URL, api_key = key, params = Some (limit, mtime)\<rparr> = Some R
      \<and> status_code R = c \<longrightarrow>
      otx_get http key mtime limit '''' out = (Inr None, out)
      \<and> iter_pulses fuel http key mtime limit consume s out = (Raised TypeError, s, out))
   \<and> (c \<noteq> 200 \<and> c \<noteq> 403 \<and> c \<noteq> 400 \<and> nr \<noteq> ''''
      \<and> http \<lparr>url = nr, api_key = key, params = None\<rparr> = Some R \<and> status_code R = c \<longrightarrow>
      otx_get http key mtime limit nr out = (Inr None, out))
   \<and> (c \<noteq> 200 \<and> c \<noteq> 403 \<and> c \<noteq> 400 \<and> truthy nx
      \<and> http \<lparr>url = link_url nx, api_key = key, params = None\<rparr> = Some R
      \<and> status_code R = c \<longrightarrow>
      pages_loop (Suc fuel) http key mtime consume nx s out = (Raised TypeError, s, out))
   \<and> (c \<noteq> 200 \<and> c \<noteq> 403 \<and> c \<noteq> 400
      \<and> http \<lparr>url = URL, api_key = key, params = Some (20, mtime)\<rparr> = Some R
      \<and> status_code R = c \<longrightarrow>
      main fuel http key mtime n = (Raised TypeError, [HEADER], [])
      \<and> exit_code (fst (main fuel http key mtime n)) = Some 1)"
proof -
  have A: "otx_get http key mtime l '''' out = (Inr None, out)
      \<and> iter_pulses fuel http key mtime l cs st out = (Raised TypeError, st, out)"
    if "c \<noteq> 200" "c \<noteq> 403" "c \<noteq> 400" "status_code R = c"
      "http \<lparr>url = URL, api_key = key, params = Some (l, mtime)\<rparr> = Some R"
    for cs :: "pulse \<Rightarrow> 'c \<Rightarrow> error option \<times> 'c" and st out l
    using otx_get_unhandled(1) [OF that(1,2,3,4), where http = http and key = key and limit = l
        and mtime = mtime and out = out] that(5)
    by (simp add: iter_pulses_def yield_page_def getitem_results_def)
  have B: "otx_get http key mtime limit nr out = (Inr None, out)"
    if "c \<noteq> 200" "c \<noteq> 403" "c \<noteq> 400" "status_code R = c" "nr \<noteq> ''''"
      "http \<lparr>url = nr, api_key = key, params = None\<rparr> = Some R"
    using otx_get_unhandled(2) [OF that(1,2,3,4)] that(5,6) by simp
  have C: "pages_loop (Suc fuel) http key mtime consume nx s out = (Raised TypeError, s, out)"
    if "c \<noteq> 200" "c \<noteq> 403" "c \<noteq> 400" "status_code R = c" "truthy nx"
      "http \<lparr>url = link_url nx, api_key = key, params = None\<rparr> = Some R"
    using otx_get_unhandled(2) [OF that(1,2,3,4), where nr = "link_url nx" and http = http
        and key = key and limit = 20 and mtime = mtime and out = out]
      truthy_link_url [OF that(5)] that(5,6)
    by (simp add: yield_page_def getitem_results_def)
  have D: "main fuel http key mtime n = (Raised TypeError, [HEADER], [])
      \<and> exit_code (fst (main fuel http key mtime n)) = Some 1"
    if "c \<noteq> 200" "c \<noteq> 403" "c \<noteq> 400" "status_code R = c"
      "http \<lparr>url = URL, api_key = key, params = Some (20, mtime)\<rparr> = Some R"
    using A [of 20 "[]" "write_pulse n" "[HEADER]", OF that] by (simp add: main_def)
  from A [of limit out consume s] B C D show ?thesis by blast
qed

theorem unhandled_status_witness:
  "otx_get (always_status 500) ''k'' ''2020-01-01'' 20 '''' [] = (Inr None, [])
   \<and> otx_get (always_status 404) ''k'' ''2020-01-01'' 20 ''http://otx/page2'' [] = (Inr None, [])
   \<and> iter_pulses 2 (always_status 500) ''k'' ''2020-01-01'' 20 collect [] [] = (Raised TypeError, [], [])
   \<and> main 2 (always_status 500) ''k'' ''2020-01-01'' ''T'' = (Raised TypeError, [HEADER], [])
   \<and> pages_loop (Suc 0) (page_then_status [pulse_X] 500) ''k'' ''2020-01-01'' collect
        (Str ''http://otx/page2'') [pulse_X] [] = (Raised TypeError, [pulse_X], [])"
proof -
  note thm500 = unhandled_status [where c = 500 and http = "always_status 500" and key = "''k''"
        and mtime = "''2020-01-01''" and limit = 20 and out = "[]" and fuel = 2 and consume = collect
        and s = "[]" and n = "''T''" and R = "\<lparr>status_code = 500, json = None\<rparr>"]
  note thm404 = unhandled_status [where c = 404 and http = "always_status 404" and key = "''k''"
        and mtime = "''2020-01-01''" and limit = 20 and out = "[]" and nr = "''http://otx/page2''"
        and R = "\<lparr>status_code = 404, json = None\<rparr>"]
  note thm2nd = unhandled_status [where c = 500 and http = "page_then_status [pulse_X] 500"
        and key = "''k''" and mtime = "''2020-01-01''" and out = "[]" and fuel = 0
        and consume = collect and s = "[pulse_X]" and nx = "Str ''http://otx/page2''"
        and R = "\<lparr>status_code = 500, json = None\<rparr>"]
  have a: "otx_get (always_status 500) ''k'' ''2020-01-01'' 20 '''' [] = (Inr None, [])
     \<and> iter_pulses 2 (always_status 500) ''k'' ''2020-01-01'' 20 collect [] [] = (Raised TypeError, [], [])"
    using thm500 [THEN conjunct1] by (simp add: always_status_def)
  have b: "otx_get (always_status 404) ''k'' ''2020-01-01'' 20 ''http://otx/page2'' [] = (Inr None, [])"
    using thm404 [THEN conjunct2, THEN conjunct1] by (simp add: always_status_def)
  have c: "pages_loop (Suc 0) (page_then_status [pulse_X] 500) ''k'' ''2020-01-01'' collect
        (Str ''http://otx/page2'') [pulse_X] [] = (Raised TypeError, [pulse_X], [])"
    using thm2nd [THEN conjunct2, THEN conjunct2, THEN conjunct1]
    by (simp add: page_then_status_def URL_def del: pages_loop.simps)
  have d: "main 2 (always_status 500) ''k'' ''2020-01-01'' ''T'' = (Raised TypeError, [HEADER], [])"
    using thm500 [THEN conjunct2, THEN conjunct2, THEN conjunct2] by (simp add: always_status_def)
  from a b c d show ?thesis by simp
qed

end
